theory Spec2Isabelle
  imports Main "HOL-Library.Word"
begin

unbundle bit_operations_syntax

section \<open>JavaScript values used by services/geminiService.ts\<close>

text \<open>
  A JavaScript string is a sequence of UTF-16 code units; \<open>charCodeAt\<close> reads one of
  them as a number between 0 and 65535.  String literals of the source are ASCII and
  are written through \<open>js\<close>.
\<close>

type_synonym jsstring = "16 word list"

definition js :: "string \<Rightarrow> jsstring" where
  "js s = map (\<lambda>c. of_char c) s"

text \<open>
  The numbers of \<open>getSeed\<close> are integers far below \<open>2^53\<close>, where the arithmetic of
  JavaScript numbers is exact, so they are modelled as \<open>int\<close>.  The bitwise operators
  first fold their operands to 32-bit signed integers (ECMAScript \<open>ToInt32\<close>) and
  give a 32-bit signed result.
\<close>

definition ToInt32 :: "int \<Rightarrow> int" where
  "ToInt32 x = sint (word_of_int x :: 32 word)"

definition shiftLeft :: "int \<Rightarrow> nat \<Rightarrow> int" where
  \<comment> \<open>\<open>x << n\<close>\<close>
  "shiftLeft x n = sint (push_bit (n mod 32) (word_of_int x :: 32 word))"

definition bitwiseAnd :: "int \<Rightarrow> int \<Rightarrow> int" where
  \<comment> \<open>\<open>x & y\<close>\<close>
  "bitwiseAnd x y = sint ((word_of_int x :: 32 word) AND word_of_int y)"

definition charCodeAt :: "jsstring \<Rightarrow> nat \<Rightarrow> int" where
  \<comment> \<open>only called with \<open>i < str.length\<close>, where it is the code unit at \<open>i\<close>\<close>
  "charCodeAt str i = uint (str ! i)"

section \<open>getSeed\<close>

text \<open>
  \<^verbatim>\<open>
  let hash = 0;
  for (let i = 0; i < str.length; i++) {
    const char = str.charCodeAt(i);
    hash = ((hash << 5) - hash) + char;
    hash = hash & hash;
  }
  return Math.abs(hash);
  \<close>
  The loop is a function of the index and of the running hash.
\<close>

function getSeed_loop :: "jsstring \<Rightarrow> nat \<Rightarrow> int \<Rightarrow> int" where
  "getSeed_loop str i hash =
     (if i < length str then
        let char = charCodeAt str i;
            hash1 = (shiftLeft hash 5 - hash) + char;
            hash2 = bitwiseAnd hash1 hash1
        in getSeed_loop str (i + 1) hash2
      else hash)"
  by pat_completeness auto
termination
  by (relation "measure (\<lambda>(str, i, hash). length str - i)") auto

declare getSeed_loop.simps [simp del]

definition getSeed :: "jsstring \<Rightarrow> int" where
  "getSeed str = \<bar>getSeed_loop str 0 0\<bar>"

subsection \<open>The rolling hash as the specification words it\<close>

text \<open>
  Arithmetic modulo \<open>2^32\<close> read as a signed number, the accumulation
  \<open>h := 31 * h + charCode c\<close> folded to 32 bits at each step, then the absolute value.
\<close>

definition fold32 :: "int \<Rightarrow> int" where
  "fold32 x = (x + 2 ^ 31) mod 2 ^ 32 - 2 ^ 31"

fun rollingHash :: "jsstring \<Rightarrow> int \<Rightarrow> int" where
  "rollingHash [] h = h"
| "rollingHash (c # cs) h = rollingHash cs (fold32 (31 * h + uint c))"

definition specSeed :: "jsstring \<Rightarrow> int" where
  "specSeed s = \<bar>rollingHash s 0\<bar>"

section \<open>Strings: trim, toLowerCase, join, template literals\<close>

text \<open>
  \<open>trim\<close> removes the ECMAScript white space and line terminator code units from both
  ends of a string.
\<close>

definition isWhiteSpace :: "16 word \<Rightarrow> bool" where
  "isWhiteSpace c \<longleftrightarrow>
     c = 0x0009 \<or> c = 0x000A \<or> c = 0x000B \<or> c = 0x000C \<or> c = 0x000D \<or> c = 0x0020 \<or>
     c = 0x00A0 \<or> c = 0x1680 \<or> (0x2000 \<le> c \<and> c \<le> 0x200A) \<or> c = 0x2028 \<or>
     c = 0x2029 \<or> c = 0x202F \<or> c = 0x205F \<or> c = 0x3000 \<or> c = 0xFEFF"

definition trim :: "jsstring \<Rightarrow> jsstring" where
  "trim s = rev (dropWhile isWhiteSpace (rev (dropWhile isWhiteSpace s)))"

text \<open>
  \<open>toLowerCase\<close> applies the Unicode case mapping of the JavaScript engine, a table
  that is not part of the repository: the functions that use it take it as the
  parameter \<open>toLowerCase\<close>.  \<open>asciiToLowerCase\<close> is its restriction to the ASCII
  letters, a concrete instance for evaluating the functions.
\<close>

definition asciiLowerChar :: "16 word \<Rightarrow> 16 word" where
  "asciiLowerChar c = (if 0x41 \<le> c \<and> c \<le> 0x5A then c + 0x20 else c)"

definition asciiToLowerCase :: "jsstring \<Rightarrow> jsstring" where
  "asciiToLowerCase s = map asciiLowerChar s"

fun join :: "jsstring list \<Rightarrow> jsstring \<Rightarrow> jsstring" where
  \<comment> \<open>\<open>words.join(sep)\<close>\<close>
  "join [] sep = []"
| "join [w] sep = w"
| "join (w # ws) sep = w @ sep @ join ws sep"

text \<open>
  A template literal converts an interpolated value to a string: a string is
  inserted as it is, \<open>undefined\<close> as the nine letters of its name.
\<close>

definition templateString :: "jsstring option \<Rightarrow> jsstring" where
  "templateString v = (case v of None \<Rightarrow> js ''undefined'' | Some s \<Rightarrow> s)"

text \<open>
  Truthiness of an optional string: \<open>undefined\<close> and the empty string are falsy.
  \<open>orElse a b\<close> is \<open>a || b\<close> for a string \<open>b\<close>, \<open>orNull a\<close> is \<open>a || null\<close>.
\<close>

definition truthy :: "jsstring option \<Rightarrow> bool" where
  "truthy v = (case v of None \<Rightarrow> False | Some s \<Rightarrow> s \<noteq> [])"

definition orElse :: "jsstring option \<Rightarrow> jsstring \<Rightarrow> jsstring" where
  "orElse a b = (if truthy a then the a else b)"

definition orNull :: "jsstring option \<Rightarrow> jsstring option" where
  "orNull a = (if truthy a then a else None)"

section \<open>Requests and responses of the generation service\<close>

text \<open>
  The fields are those the module writes (request) or reads (response).  An absent
  key of an object literal, and \<open>undefined\<close>, are \<open>None\<close>.
\<close>

datatype schema =
    StringSchema "jsstring option"
      \<comment> \<open>\<open>{ type: Type.STRING, description? }\<close>\<close>
  | ArraySchema schema
      \<comment> \<open>\<open>{ type: Type.ARRAY, items }\<close>\<close>
  | ObjectSchema "(jsstring \<times> schema) list"
      \<comment> \<open>\<open>{ type: Type.OBJECT, properties }\<close>\<close>

datatype Modality = AUDIO

record prebuiltVoiceConfig =
  voiceName :: jsstring

record voiceConfig =
  prebuiltVoiceConfig :: prebuiltVoiceConfig

record speechConfig =
  voiceConfig :: voiceConfig

record generationConfig =
  temperature :: "int option"
  seed :: "int option"
  responseMimeType :: "jsstring option"
  responseSchema :: "schema option"
  responseModalities :: "Modality list option"
  speechConfig :: "speechConfig option"

definition noConfig :: generationConfig where
  \<comment> \<open>the object literal \<open>{}\<close>; each request sets some of its keys\<close>
  "noConfig = \<lparr>temperature = None, seed = None, responseMimeType = None,
     responseSchema = None, responseModalities = None, speechConfig = None\<rparr>"

record blob =
  data :: "jsstring option"

record part =
  part_text :: "jsstring option"
  inlineData :: "blob option"

record content =
  parts :: "part list option"

record candidate =
  content :: "content option"

record response =
  response_text :: "jsstring option"
    \<comment> \<open>\<open>response.text\<close>\<close>
  candidates :: "candidate list option"

datatype contents =
    ContentsString jsstring
  | ContentsObject content
  | ContentsArray "content list"

record request =
  model :: jsstring
  contents :: contents
  config :: "generationConfig option"

text \<open>
  \<open>ai.models.generateContent\<close> is the external service: a call either throws a value
  of the service's (\<open>Inl\<close>) or gives a response (\<open>Inr\<close>).  Each operation awaits one
  call.  What an operation can throw is a service error, the \<open>Error\<close> it creates
  itself, or the \<open>SyntaxError\<close> of \<open>JSON.parse\<close>.
\<close>

type_synonym 'e service = "request \<Rightarrow> 'e + response"

datatype 'e exn = ServiceError 'e | Error jsstring | SyntaxError

definition await :: "'e + response \<Rightarrow> 'e exn + response" where
  "await outcome = (case outcome of Inl e \<Rightarrow> Inl (ServiceError e) | Inr response \<Rightarrow> Inr response)"

text \<open>
  \<open>try { body } catch (error) { handler }\<close>, with the lines the handler writes to the
  console beside the result.
\<close>

type_synonym ('e, 'a) logged = "(jsstring \<times> 'e exn) list \<times> ('e exn + 'a)"

definition tryCatch :: "'e exn + 'a \<Rightarrow> ('e exn \<Rightarrow> ('e, 'a) logged) \<Rightarrow> ('e, 'a) logged" where
  "tryCatch body handler = (case body of Inl error \<Rightarrow> handler error | Inr v \<Rightarrow> ([], Inr v))"

definition firstCandidateParts :: "response \<Rightarrow> part list option" where
  \<comment> \<open>\<open>response.candidates?.[0]?.content?.parts\<close>\<close>
  "firstCandidateParts response =
     (case candidates response of
        None \<Rightarrow> None
      | Some cs \<Rightarrow>
          (case cs of
             [] \<Rightarrow> None
           | c # _ \<Rightarrow> (case content c of None \<Rightarrow> None | Some ct \<Rightarrow> parts ct)))"

definition candidateParts :: "response \<Rightarrow> part list" where
  \<comment> \<open>\<open>response.candidates?.[0]?.content?.parts || []\<close>\<close>
  "candidateParts response = (case firstCandidateParts response of None \<Rightarrow> [] | Some ps \<Rightarrow> ps)"

definition firstPart :: "response \<Rightarrow> part option" where
  \<comment> \<open>\<open>response.candidates?.[0]?.content?.parts?.[0]\<close>\<close>
  "firstPart response =
     (case firstCandidateParts response of
        None \<Rightarrow> None
      | Some ps \<Rightarrow> (case ps of [] \<Rightarrow> None | part # _ \<Rightarrow> Some part))"

definition requestTemperature :: "request \<Rightarrow> int option" where
  \<comment> \<open>the temperature a request carries, if any\<close>
  "requestTemperature rq = (case config rq of None \<Rightarrow> None | Some c \<Rightarrow> temperature c)"

definition requestSeed :: "request \<Rightarrow> int option" where
  \<comment> \<open>the seed a request carries, if any\<close>
  "requestSeed rq = (case config rq of None \<Rightarrow> None | Some c \<Rightarrow> seed c)"

section \<open>1. getDefinition\<close>

definition definitionPrompt :: "jsstring \<Rightarrow> jsstring \<Rightarrow> jsstring \<Rightarrow> jsstring" where
  \<open>definitionPrompt term nativeLang targetLang =
     js ''\<newline>'' @
     js ''    Define the term "'' @ term @ js ''" (which is in '' @ targetLang @ js '') for a speaker of '' @ nativeLang @ js ''.\<newline>'' @
     js ''    Provide:\<newline>'' @
     js ''    1. A natural language definition in '' @ nativeLang @ js ''.\<newline>'' @
     js ''    2. Two example sentences. CRITICAL: \<newline>'' @
     js ''       - The 'target' field MUST be the sentence in '' @ targetLang @ js ''.\<newline>'' @
     js ''       - The 'native' field MUST be the translation in '' @ nativeLang @ js ''.\<newline>'' @
     js ''    3. A "usageNote" in '' @ nativeLang @ js '' that explains cultural nuance, tone, or related words. \<newline>'' @
     js ''       CRITICAL: The usage note must be fun, lively, and casual. Like a friend talking. No textbook style. Be concise.\<newline>'' @
     js ''  ''\<close>

definition definitionSchema :: "jsstring \<Rightarrow> jsstring \<Rightarrow> schema" where
  "definitionSchema nativeLang targetLang =
     ObjectSchema
       [(js ''definition'', StringSchema None),
        (js ''examples'',
           ArraySchema
             (ObjectSchema
                [(js ''target'',
                    StringSchema (Some (js ''The example sentence in '' @ targetLang @ js '' (e.g. Spanish).''))),
                 (js ''native'',
                    StringSchema (Some (js ''The translation of the example in '' @ nativeLang @ js '' (e.g. English).'')))])),
        (js ''usageNote'', StringSchema None)]"

definition definitionRequest :: "jsstring \<Rightarrow> jsstring \<Rightarrow> jsstring \<Rightarrow> request" where
  "definitionRequest term nativeLang targetLang =
     \<lparr>model = js ''gemini-2.5-flash'',
      contents = ContentsString (definitionPrompt term nativeLang targetLang),
      config = Some (noConfig
        \<lparr>temperature := Some 0,
         responseMimeType := Some (js ''application/json''),
         responseSchema := Some (definitionSchema nativeLang targetLang)\<rparr>)\<rparr>"

text \<open>
  \<open>JSON.parse\<close> is the engine's decoder, the parameter \<open>JSON_parse\<close>: \<open>None\<close> where it
  throws its \<open>SyntaxError\<close>, the decoded value otherwise.
  \<^verbatim>\<open>
  if (!response.text) throw new Error("No definition generated");
  return JSON.parse(response.text) as DefinitionResponse;
  \<close>
\<close>

definition getDefinition ::
  "(jsstring \<Rightarrow> 'v option) \<Rightarrow> 'e service \<Rightarrow> jsstring \<Rightarrow> jsstring \<Rightarrow> jsstring \<Rightarrow> 'e exn + 'v" where
  "getDefinition JSON_parse generateContent term nativeLang targetLang =
     (case await (generateContent (definitionRequest term nativeLang targetLang)) of
        Inl error \<Rightarrow> Inl error
      | Inr response \<Rightarrow>
          if \<not> truthy (response_text response) then Inl (Error (js ''No definition generated''))
          else (case JSON_parse (the (response_text response)) of
                  None \<Rightarrow> Inl SyntaxError
                | Some v \<Rightarrow> Inr v))"

section \<open>2. generateImage\<close>

definition imagePrompt :: "jsstring \<Rightarrow> jsstring \<Rightarrow> jsstring" where
  \<open>imagePrompt term targetLang =
     js ''A simple, bright, pop-art style illustration representing the concept of "'' @ term @ js ''" (in '' @ targetLang @ js ''). Minimalist, colorful, vector art style. White background. High contrast, thick lines.''\<close>

definition imageRequest :: "(jsstring \<Rightarrow> jsstring) \<Rightarrow> jsstring \<Rightarrow> jsstring \<Rightarrow> request" where
  "imageRequest toLowerCase term targetLang =
     (let seed = getSeed (trim (toLowerCase term)) in
      \<lparr>model = js ''gemini-2.5-flash-image'',
       contents = ContentsObject
         \<lparr>parts = Some [\<lparr>part_text = Some (imagePrompt term targetLang), inlineData = None\<rparr>]\<rparr>,
       config = Some (noConfig\<lparr>seed := Some seed\<rparr>)\<rparr>)"

text \<open>
  \<^verbatim>\<open>
  for (const part of response.candidates?.[0]?.content?.parts || []) {
    if (part.inlineData) {
      return `data:image/png;base64,${part.inlineData.data}`;
    }
  }
  return null;
  \<close>
\<close>

fun generateImage_loop :: "part list \<Rightarrow> jsstring option" where
  "generateImage_loop [] = None"
| "generateImage_loop (part # rest) =
     (case inlineData part of
        Some inline \<Rightarrow> Some (js ''data:image/png;base64,'' @ templateString (data inline))
      | None \<Rightarrow> generateImage_loop rest)"

definition generateImage ::
  "(jsstring \<Rightarrow> jsstring) \<Rightarrow> 'e service \<Rightarrow> jsstring \<Rightarrow> jsstring \<Rightarrow> ('e, jsstring option) logged" where
  "generateImage toLowerCase generateContent term targetLang =
     tryCatch
       (case await (generateContent (imageRequest toLowerCase term targetLang)) of
          Inl error \<Rightarrow> Inl error
        | Inr response \<Rightarrow>
            Inr (generateImage_loop (candidateParts response)))
       (\<lambda>error. ([(js ''Image generation failed'', error)], Inr None))"

section \<open>3. generateSpeech\<close>

definition speechRequest :: "jsstring \<Rightarrow> request" where
  "speechRequest text =
     \<lparr>model = js ''gemini-2.5-flash-preview-tts'',
      contents = ContentsArray [\<lparr>parts = Some [\<lparr>part_text = Some text, inlineData = None\<rparr>]\<rparr>],
      config = Some (noConfig
        \<lparr>responseModalities := Some [AUDIO],
         speechConfig := Some
           \<lparr>voiceConfig = \<lparr>prebuiltVoiceConfig = \<lparr>voiceName = js ''Kore''\<rparr>\<rparr>\<rparr>\<rparr>)\<rparr>"

definition firstPartData :: "response \<Rightarrow> jsstring option" where
  \<comment> \<open>\<open>response.candidates?.[0]?.content?.parts?.[0]?.inlineData?.data\<close>\<close>
  "firstPartData response =
     (case firstPart response of
        None \<Rightarrow> None
      | Some part \<Rightarrow> (case inlineData part of None \<Rightarrow> None | Some inline \<Rightarrow> data inline))"

definition generateSpeech :: "'e service \<Rightarrow> jsstring \<Rightarrow> ('e, jsstring option) logged" where
  "generateSpeech generateContent text =
     tryCatch
       (case await (generateContent (speechRequest text)) of
          Inl error \<Rightarrow> Inl error
        | Inr response \<Rightarrow>
            (let base64Audio = firstPartData response in Inr (orNull base64Audio)))
       (\<lambda>error. ([(js ''TTS failed'', error)], Inr None))"

section \<open>4. generateStory\<close>

definition storyPrompt :: "jsstring list \<Rightarrow> jsstring \<Rightarrow> jsstring \<Rightarrow> jsstring" where
  "storyPrompt words nativeLang targetLang =
     js ''\<newline>'' @
     js ''    Create a short, practical real-life dialogue in '' @ targetLang @ js '' using as many of these words as possible naturally: '' @ join words (js '', '') @ js ''.\<newline>'' @
     js ''    \<newline>'' @
     js ''    Requirements:\<newline>'' @
     js ''    1. Format as a simple conversation script (e.g., Person A: ... / Person B: ...).\<newline>'' @
     js ''    2. Sentences must be simple, short, and beginner-friendly.\<newline>'' @
     js ''    3. IMMEDIATELY after each '' @ targetLang @ js '' sentence, include the '' @ nativeLang @ js '' translation in parentheses on the same line.\<newline>'' @
     js ''    4. Keep it concise (max 6-8 lines of dialogue).\<newline>'' @
     js ''  ''"

definition storyRequest :: "jsstring list \<Rightarrow> jsstring \<Rightarrow> jsstring \<Rightarrow> request" where
  "storyRequest words nativeLang targetLang =
     \<lparr>model = js ''gemini-2.5-flash'',
      contents = ContentsString (storyPrompt words nativeLang targetLang),
      config = None\<rparr>"

definition generateStory ::
  "'e service \<Rightarrow> jsstring list \<Rightarrow> jsstring \<Rightarrow> jsstring \<Rightarrow> 'e exn + jsstring" where
  "generateStory generateContent words nativeLang targetLang =
     (case await (generateContent (storyRequest words nativeLang targetLang)) of
        Inl error \<Rightarrow> Inl error
      | Inr response \<Rightarrow>
          Inr (orElse (response_text response) (js ''Could not generate dialogue.'')))"

section \<open>5. getQuickAiAnswer\<close>

datatype answerType = natural | mistake | funfact

definition specificPrompt :: "jsstring \<Rightarrow> answerType \<Rightarrow> jsstring" where
  \<open>specificPrompt term type =
     (case type of
        natural \<Rightarrow>
          js ''Explain the most natural, authentic ways to use the word "'' @ term @ js ''" in casual conversation. Give a couple of quick examples.''
      | mistake \<Rightarrow>
          js ''What are the most common mistakes learners make when using or pronouncing "'' @ term @ js ''"? How can they avoid them?''
      | funfact \<Rightarrow>
          js ''Tell me a fun fact, etymology, or a "tricky" mnemonic way to memorize "'' @ term @ js ''".'')\<close>

definition fullPrompt :: "jsstring \<Rightarrow> answerType \<Rightarrow> jsstring \<Rightarrow> jsstring \<Rightarrow> jsstring" where
  \<open>fullPrompt term type nativeLang targetLang =
     js ''\<newline>'' @
     js ''    You are a fun, energetic language tutor. \<newline>'' @
     js ''    The user is asking about the word "'' @ term @ js ''" (which is in '' @ targetLang @ js '').\<newline>'' @
     js ''    Answer this request for a '' @ nativeLang @ js '' speaker: "'' @ specificPrompt term type @ js ''"\<newline>'' @
     js ''    \<newline>'' @
     js ''    CRITICAL INSTRUCTIONS:\<newline>'' @
     js ''    1. Keep the answer VERY SHORT (1-4 sentences maximum).\<newline>'' @
     js ''    2. Be simple and beginner-friendly.\<newline>'' @
     js ''    3. Use casual language and emojis.\<newline>'' @
     js ''  ''\<close>

definition quickAnswerRequest :: "jsstring \<Rightarrow> answerType \<Rightarrow> jsstring \<Rightarrow> jsstring \<Rightarrow> request" where
  "quickAnswerRequest term type nativeLang targetLang =
     \<lparr>model = js ''gemini-2.5-flash'',
      contents = ContentsString (fullPrompt term type nativeLang targetLang),
      config = Some (noConfig\<lparr>temperature := Some 0\<rparr>)\<rparr>"

definition getQuickAiAnswer ::
  "'e service \<Rightarrow> jsstring \<Rightarrow> answerType \<Rightarrow> jsstring \<Rightarrow> jsstring \<Rightarrow> 'e exn + jsstring" where
  "getQuickAiAnswer generateContent term type nativeLang targetLang =
     (case await (generateContent (quickAnswerRequest term type nativeLang targetLang)) of
        Inl error \<Rightarrow> Inl error
      | Inr response \<Rightarrow>
          Inr (orElse (response_text response) (js ''Could not generate an answer right now.'')))"

section \<open>Concrete services, responses and decoders\<close>

text \<open>
  Inputs on which the operations are evaluated below: a service that answers every
  request with one response, a service that throws, responses with a text only or
  with parts only, and a decoder that accepts the text of the empty object only.
\<close>

definition respond :: "response \<Rightarrow> jsstring service" where
  "respond response rq = Inr response"

definition throwing :: "jsstring \<Rightarrow> jsstring service" where
  "throwing e rq = Inl e"

definition textResponse :: "jsstring option \<Rightarrow> response" where
  "textResponse t = \<lparr>response_text = t, candidates = None\<rparr>"

definition partsResponse :: "part list list \<Rightarrow> response" where
  \<comment> \<open>one candidate for each list of parts\<close>
  "partsResponse pss =
     \<lparr>response_text = None,
      candidates = Some (map (\<lambda>ps. \<lparr>content = Some \<lparr>parts = Some ps\<rparr>\<rparr>) pss)\<rparr>"

definition textPart :: "jsstring \<Rightarrow> part" where
  "textPart t = \<lparr>part_text = Some t, inlineData = None\<rparr>"

definition inlinePart :: "jsstring option \<Rightarrow> part" where
  "inlinePart d = \<lparr>part_text = None, inlineData = Some \<lparr>data = d\<rparr>\<rparr>"

definition parseEmptyObject :: "jsstring \<Rightarrow> unit option" where
  "parseEmptyObject t = (if t = js ''{}'' then Some () else None)"

text \<open>
  Modelled from the spec: the type \<open>DefinitionResponse\<close> of \<open>../types\<close>, which is not
  among the sources: a definition, the examples as pairs of a target and a native
  sentence, and a usage note.  \<open>parseSampleDefinition\<close> decodes one text to it.
\<close>

datatype DefinitionResponse = DefinitionResponse jsstring "(jsstring \<times> jsstring) list" jsstring

definition sampleDefinitionText :: jsstring where
  \<open>sampleDefinitionText =
     js ''{"definition":"to move fast","examples":[{"target":"Corro.","native":"I run."}],"usageNote":"very common"}''\<close>

definition parseSampleDefinition :: "jsstring \<Rightarrow> DefinitionResponse option" where
  "parseSampleDefinition t =
     (if t = sampleDefinitionText
      then Some (DefinitionResponse (js ''to move fast'') [(js ''Corro.'', js ''I run.'')] (js ''very common''))
      else None)"

definition zeroTemperatureOnly :: "response \<Rightarrow> jsstring service" where
  \<comment> \<open>answers the requests of temperature 0 and throws on every other request\<close>
  "zeroTemperatureOnly response rq =
     (if requestTemperature rq = Some 0 then Inr response else Inl (js ''unsupported''))"

section \<open>Properties of getSeed\<close>

lemma ToInt32_fold32: "ToInt32 x = fold32 x"
  by (simp add: ToInt32_def fold32_def int_word_sint)

lemma fold32_range: "- (2 ^ 31) \<le> fold32 x \<and> fold32 x < 2 ^ 31"
proof -
  have "0 \<le> (x + 2 ^ 31) mod (2 ^ 32 :: int)" "(x + 2 ^ 31) mod (2 ^ 32 :: int) < 2 ^ 32"
    by simp_all
  then show ?thesis
    by (simp add: fold32_def)
qed

lemma getSeed_step:
  "bitwiseAnd ((shiftLeft h 5 - h) + c) ((shiftLeft h 5 - h) + c) = fold32 (31 * h + c)"
proof -
  have "bitwiseAnd ((shiftLeft h 5 - h) + c) ((shiftLeft h 5 - h) + c)
      = ToInt32 (sint (push_bit 5 (word_of_int h :: 32 word)) - h + c)"
    by (simp add: bitwiseAnd_def shiftLeft_def ToInt32_def)
  also have "\<dots> = ToInt32 (31 * h + c)"
    by (simp add: ToInt32_def push_bit_eq_mult)
  finally show ?thesis
    by (simp add: ToInt32_fold32)
qed

lemma getSeed_loop_rollingHash:
  "i \<le> length str \<Longrightarrow> getSeed_loop str i h = rollingHash (drop i str) h"
proof (induction str i h rule: getSeed_loop.induct)
  case (1 str i hash)
  show ?case
  proof (cases "i < length str")
    case True
    then have d: "drop i str = str ! i # drop (i + 1) str"
      by (simp add: Cons_nth_drop_Suc)
    have "getSeed_loop str i hash
        = getSeed_loop str (i + 1) (fold32 (31 * hash + charCodeAt str i))"
      using True by (simp add: Let_def getSeed_step getSeed_loop.simps [of str i hash])
    also have "\<dots> = rollingHash (drop (i + 1) str) (fold32 (31 * hash + charCodeAt str i))"
      using True "1.IH" [OF True refl refl refl] by (simp add: getSeed_step)
    finally show ?thesis
      by (simp add: d charCodeAt_def)
  next
    case False
    then have "getSeed_loop str i hash = hash"
      by (subst getSeed_loop.simps) simp
    with False "1.prems" show ?thesis
      by simp
  qed
qed

lemma rollingHash_range:
  "- (2 ^ 31) \<le> h \<and> h < 2 ^ 31 \<Longrightarrow> - (2 ^ 31) \<le> rollingHash s h \<and> rollingHash s h < 2 ^ 31"
proof (induction s arbitrary: h)
  case Nil
  then show ?case by simp
next
  case (Cons c cs)
  have "- (2 ^ 31) \<le> rollingHash cs (fold32 (31 * h + uint c))
      \<and> rollingHash cs (fold32 (31 * h + uint c)) < 2 ^ 31"
    by (rule Cons.IH) (rule fold32_range)
  then show ?case by simp
qed

text \<open>
  C3: for every string the seed is the absolute value of the rolling hash
  \<open>h := 31 * h + charCode c\<close> over the code units of the string, each step folded to a
  32-bit signed integer; so the seed is a non-negative integer and at most \<open>2^31\<close>.
\<close>

theorem getSeed_is_rolling_hash:
  "getSeed s = specSeed s \<and> 0 \<le> getSeed s \<and> getSeed s \<le> 2 ^ 31"
proof -
  have eq: "getSeed_loop s 0 0 = rollingHash s 0"
    using getSeed_loop_rollingHash [of 0 s 0] by simp
  have "- (2 ^ 31) \<le> rollingHash s 0 \<and> rollingHash s 0 < 2 ^ 31"
    by (rule rollingHash_range) simp
  then have "\<bar>rollingHash s 0\<bar> \<le> 2 ^ 31"
    by linarith
  with eq show ?thesis
    by (simp add: getSeed_def specSeed_def)
qed

lemma getSeed_rollingHash: "getSeed s = \<bar>rollingHash s 0\<bar>"
  using getSeed_loop_rollingHash [of 0 s 0] by (simp add: getSeed_def)

theorem getSeed_is_rolling_hash_witness:
  "getSeed (js ''gato'') = 3165397 \<and> specSeed (js ''gato'') = 3165397"
proof -
  have "specSeed (js ''gato'') = 3165397"
    by (simp add: specSeed_def js_def fold32_def)
  with getSeed_is_rolling_hash [of "js ''gato''"] show ?thesis
    by simp
qed

section \<open>Normalisation of the term before hashing\<close>

text \<open>
  \<open>trim\<close> leaves a trimmed string as it is.
\<close>

lemma dropWhile_snoc_keeps_last: "\<not> P c \<Longrightarrow> \<exists>ys. dropWhile P (xs @ [c]) = ys @ [c]"
  by (induction xs) auto

lemma dropWhile_rev_kept_head:
  assumes "u = [] \<or> \<not> P (hd u)"
  shows "dropWhile P (rev (dropWhile P (rev u))) = rev (dropWhile P (rev u))"
proof (cases u)
  case Nil
  then show ?thesis by simp
next
  case (Cons c cs)
  with assms have c: "\<not> P c" by simp
  from c dropWhile_snoc_keeps_last [of P c "rev cs"]
  obtain ys where ys: "dropWhile P (rev cs @ [c]) = ys @ [c]" by auto
  have "rev (dropWhile P (rev u)) = c # rev ys"
    by (simp add: Cons ys)
  with c show ?thesis by simp
qed

lemma dropWhile_rev_dropWhile:
  "dropWhile P (rev (dropWhile P (rev (dropWhile P s)))) = rev (dropWhile P (rev (dropWhile P s)))"
proof (rule dropWhile_rev_kept_head)
  show "dropWhile P s = [] \<or> \<not> P (hd (dropWhile P s))"
  proof (cases "dropWhile P s = []")
    case True
    then show ?thesis ..
  next
    case False
    then have "\<not> P (hd (dropWhile P s))" by (rule hd_dropWhile)
    then show ?thesis ..
  qed
qed

lemma trim_trim: "trim (trim s) = trim s"
  by (simp add: trim_def dropWhile_rev_dropWhile)

text \<open>
  The ASCII case mapping is idempotent and commutes with \<open>trim\<close>: it maps no code
  unit to or from white space.
\<close>

lemma asciiLowerChar_idem: "asciiLowerChar (asciiLowerChar c) = asciiLowerChar c"
  unfolding asciiLowerChar_def by unat_arith

lemma asciiToLowerCase_idem: "asciiToLowerCase (asciiToLowerCase t) = asciiToLowerCase t"
  by (simp add: asciiToLowerCase_def asciiLowerChar_idem)

lemma isWhiteSpace_unat:
  "isWhiteSpace c \<longleftrightarrow>
     unat c \<in> {0x0009, 0x000A, 0x000B, 0x000C, 0x000D, 0x0020, 0x00A0, 0x1680, 0x2028, 0x2029,
       0x202F, 0x205F, 0x3000, 0xFEFF} \<or> (0x2000 \<le> unat c \<and> unat c \<le> 0x200A)"
  unfolding isWhiteSpace_def by (auto simp add: word_le_nat_alt word_unat_eq_iff)

lemma isWhiteSpace_asciiLowerChar: "isWhiteSpace (asciiLowerChar c) = isWhiteSpace c"
proof (cases "0x41 \<le> c \<and> c \<le> 0x5A")
  case True
  then have r: "65 \<le> unat c" "unat c \<le> 90"
    by (simp_all add: word_le_nat_alt)
  then have "unat (c + 0x20) = unat c + 32"
    by (simp add: unat_word_ariths)
  with r have "\<not> isWhiteSpace (c + 0x20)" "\<not> isWhiteSpace c"
    by (auto simp add: isWhiteSpace_unat)
  with True show ?thesis
    by (simp add: asciiLowerChar_def)
next
  case False
  then show ?thesis
    by (auto simp add: asciiLowerChar_def)
qed

lemma dropWhile_map_invariant:
  assumes "\<And>c. P (f c) = P c"
  shows "dropWhile P (map f xs) = map f (dropWhile P xs)"
  by (induction xs) (simp_all add: assms)

lemma asciiToLowerCase_trim: "asciiToLowerCase (trim t) = trim (asciiToLowerCase t)"
  unfolding asciiToLowerCase_def trim_def
  by (simp only: dropWhile_map_invariant [of isWhiteSpace asciiLowerChar, OF isWhiteSpace_asciiLowerChar] rev_map)

text \<open>
  C2, as stated, fails for \<open>getSeed\<close>, the seed computation: it tells a string from
  its normalised form, by the case of a letter and by a leading blank.
\<close>

theorem getSeed_not_normalisation_invariant:
  "getSeed (js ''A'') = 65
   \<and> asciiToLowerCase (trim (js ''A'')) = js ''a''
   \<and> getSeed (js ''a'') = 97
   \<and> getSeed (js ''A'') \<noteq> getSeed (asciiToLowerCase (trim (js ''A'')))
   \<and> trim (js '' a'') = js ''a''
   \<and> getSeed (js '' a'') = 1089"
  by (simp add: getSeed_rollingHash js_def fold32_def asciiToLowerCase_def asciiLowerChar_def
      trim_def isWhiteSpace_def)

text \<open>
  A service that throws back the request it receives shows the request that
  \<open>generateImage\<close> sends.
\<close>

lemma generateImage_echo:
  "generateImage toLowerCase Inl term targetLang
     = ([(js ''Image generation failed'', ServiceError (imageRequest toLowerCase term targetLang))], Inr None)"
  by (simp add: generateImage_def tryCatch_def await_def)

text \<open>
  C2, amended: the seed is a function of the string alone, and normalisation is what
  \<open>generateImage\<close> does before hashing.  The request it sends for a term \<open>s\<close> carries
  the seed \<open>getSeed\<close> of the lower-cased, then trimmed term; so two terms with the
  same normalised form get the same seed, a term that is its own normalised form
  gets \<open>getSeed\<close> of itself, and, for a case mapping that is idempotent and commutes
  with \<open>trim\<close>, the seed for the normalised term (lower-cased then trimmed, or
  trimmed then lower-cased) is the seed for the term.
\<close>

theorem generateImage_seed_of_normalised_term:
  "fst (generateImage toLowerCase Inl s targetLang)
     = [(js ''Image generation failed'', ServiceError (imageRequest toLowerCase s targetLang))]
   \<and> requestSeed (imageRequest toLowerCase s targetLang) = Some (getSeed (trim (toLowerCase s)))
   \<and> (trim (toLowerCase s) = trim (toLowerCase t) \<longrightarrow>
        requestSeed (imageRequest toLowerCase s targetLang)
          = requestSeed (imageRequest toLowerCase t targetLang'))
   \<and> (trim (toLowerCase s) = s \<longrightarrow>
        requestSeed (imageRequest toLowerCase s targetLang) = Some (getSeed s))
   \<and> ((\<forall>u. toLowerCase (toLowerCase u) = toLowerCase u)
        \<and> (\<forall>u. toLowerCase (trim u) = trim (toLowerCase u)) \<longrightarrow>
        requestSeed (imageRequest toLowerCase (trim (toLowerCase s)) targetLang')
          = requestSeed (imageRequest toLowerCase s targetLang)
        \<and> requestSeed (imageRequest toLowerCase (toLowerCase (trim s)) targetLang')
          = requestSeed (imageRequest toLowerCase s targetLang))"
proof -
  have seed: "requestSeed (imageRequest toLowerCase u l) = Some (getSeed (trim (toLowerCase u)))" for u l
    by (simp add: requestSeed_def imageRequest_def noConfig_def)
  have log: "fst (generateImage toLowerCase Inl s targetLang)
     = [(js ''Image generation failed'', ServiceError (imageRequest toLowerCase s targetLang))]"
    by (simp add: generateImage_echo)
  have same: "trim (toLowerCase s) = trim (toLowerCase t) \<longrightarrow>
        requestSeed (imageRequest toLowerCase s targetLang)
          = requestSeed (imageRequest toLowerCase t targetLang')"
    by (simp add: seed)
  have fixed: "trim (toLowerCase s) = s \<longrightarrow>
        requestSeed (imageRequest toLowerCase s targetLang) = Some (getSeed s)"
    by (simp add: seed)
  have inv: "requestSeed (imageRequest toLowerCase (trim (toLowerCase s)) targetLang')
          = requestSeed (imageRequest toLowerCase s targetLang)
        \<and> requestSeed (imageRequest toLowerCase (toLowerCase (trim s)) targetLang')
          = requestSeed (imageRequest toLowerCase s targetLang)"
    if idem: "\<forall>u. toLowerCase (toLowerCase u) = toLowerCase u"
      and comm: "\<forall>u. toLowerCase (trim u) = trim (toLowerCase u)"
  proof -
    have "trim (toLowerCase (trim (toLowerCase s))) = trim (toLowerCase s)"
      using idem comm by (simp add: trim_trim)
    moreover have "trim (toLowerCase (toLowerCase (trim s))) = trim (toLowerCase s)"
      using idem comm by (simp add: trim_trim)
    ultimately show ?thesis
      by (simp only: seed simp_thms)
  qed
  from log seed [of s targetLang] same fixed inv show ?thesis
    by (intro conjI impI) simp_all
qed

theorem generateImage_seed_of_normalised_term_witness:
  "fst (generateImage asciiToLowerCase Inl (js ''  Gato '') (js ''Spanish''))
     = [(js ''Image generation failed'',
         ServiceError (imageRequest asciiToLowerCase (js ''  Gato '') (js ''Spanish'')))]
   \<and> requestSeed (imageRequest asciiToLowerCase (js ''  Gato '') (js ''Spanish'')) = Some 3165397
   \<and> requestSeed (imageRequest asciiToLowerCase (js ''gato'') (js ''French'')) = Some 3165397
   \<and> getSeed (js ''gato'') = 3165397
   \<and> requestSeed (imageRequest asciiToLowerCase (trim (asciiToLowerCase (js ''  Gato ''))) (js ''Spanish''))
       = requestSeed (imageRequest asciiToLowerCase (js ''  Gato '') (js ''Spanish''))
   \<and> requestSeed (imageRequest asciiToLowerCase (asciiToLowerCase (trim (js ''  Gato ''))) (js ''Spanish''))
       = requestSeed (imageRequest asciiToLowerCase (js ''  Gato '') (js ''Spanish''))"
proof -
  have n1: "trim (asciiToLowerCase (js ''  Gato '')) = js ''gato''"
    by (simp add: trim_def asciiToLowerCase_def asciiLowerChar_def js_def isWhiteSpace_def)
  have n2: "trim (asciiToLowerCase (js ''gato'')) = js ''gato''"
    by (simp add: trim_def asciiToLowerCase_def asciiLowerChar_def js_def isWhiteSpace_def)
  have v: "getSeed (js ''gato'') = 3165397"
    by (simp add: getSeed_rollingHash js_def fold32_def)
  have laws: "(\<forall>u. asciiToLowerCase (asciiToLowerCase u) = asciiToLowerCase u)
      \<and> (\<forall>u. asciiToLowerCase (trim u) = trim (asciiToLowerCase u))"
    by (simp add: asciiToLowerCase_idem asciiToLowerCase_trim)
  note a = generateImage_seed_of_normalised_term [of asciiToLowerCase "js ''  Gato ''" "js ''Spanish''"
      "js ''gato''" "js ''French''"]
  note b = generateImage_seed_of_normalised_term [of asciiToLowerCase "js ''  Gato ''" "js ''Spanish''"
      "js ''gato''" "js ''Spanish''"]
  note c = generateImage_seed_of_normalised_term [of asciiToLowerCase "js ''gato''" "js ''French''"
      "js ''gato''" "js ''French''"]
  from a b c laws n1 n2 v show ?thesis
    by simp
qed

section \<open>Outcomes of the operations\<close>

lemma await_Inl: "await (Inl e) = Inl (ServiceError e)"
  by (simp add: await_def)

lemma await_Inr: "await (Inr response) = Inr response"
  by (simp add: await_def)

lemma truthy_iff: "truthy v \<longleftrightarrow> (\<exists>t. v = Some t \<and> t \<noteq> [])"
  by (cases v) (simp_all add: truthy_def)

text \<open>
  C1: \<open>getDefinition\<close> throws its own error \<open>No definition generated\<close> exactly when
  the service call succeeds and the response has no text (\<open>undefined\<close> or the empty
  string); a non-empty text that \<open>JSON.parse\<close> rejects gives the decoder's
  \<open>SyntaxError\<close> to the caller; a text it accepts gives the decoded value.
\<close>

theorem getDefinition_outcomes:
  "(getDefinition JSON_parse svc term nativeLang targetLang = Inl (Error (js ''No definition generated''))
      \<longleftrightarrow> (\<exists>response. svc (definitionRequest term nativeLang targetLang) = Inr response
            \<and> (response_text response = None \<or> response_text response = Some [])))
   \<and> (\<forall>response t. svc (definitionRequest term nativeLang targetLang) = Inr response
          \<and> response_text response = Some t \<and> t \<noteq> [] \<and> JSON_parse t = None
        \<longrightarrow> getDefinition JSON_parse svc term nativeLang targetLang = Inl SyntaxError)
   \<and> (\<forall>response t v. svc (definitionRequest term nativeLang targetLang) = Inr response
          \<and> response_text response = Some t \<and> t \<noteq> [] \<and> JSON_parse t = Some v
        \<longrightarrow> getDefinition JSON_parse svc term nativeLang targetLang = Inr v)"
proof (cases "svc (definitionRequest term nativeLang targetLang)")
  case (Inl e)
  then show ?thesis
    by (simp add: getDefinition_def await_Inl)
next
  case (Inr response)
  show ?thesis
  proof (cases "truthy (response_text response)")
    case False
    then have "response_text response = None \<or> response_text response = Some []"
      by (cases "response_text response") (simp_all add: truthy_def)
    with Inr False show ?thesis
      by (auto simp add: getDefinition_def await_Inr)
  next
    case True
    then obtain t where t: "response_text response = Some t" "t \<noteq> []"
      by (auto simp add: truthy_iff)
    with Inr True show ?thesis
      by (cases "JSON_parse t") (simp_all add: getDefinition_def await_Inr)
  qed
qed

theorem getDefinition_outcomes_witness:
  "getDefinition parseEmptyObject (respond (textResponse None)) (js ''run'') (js ''English'') (js ''Spanish'')
     = Inl (Error (js ''No definition generated''))
   \<and> getDefinition parseEmptyObject (respond (textResponse (Some []))) (js ''run'') (js ''English'') (js ''Spanish'')
     = Inl (Error (js ''No definition generated''))
   \<and> getDefinition parseEmptyObject (respond (textResponse (Some (js ''not json'')))) (js ''run'') (js ''English'') (js ''Spanish'')
     = Inl SyntaxError
   \<and> getDefinition parseEmptyObject (respond (textResponse (Some (js ''{}'')))) (js ''run'') (js ''English'') (js ''Spanish'')
     = Inr ()"
  using getDefinition_outcomes [of parseEmptyObject "respond (textResponse None)" "js ''run''" "js ''English''" "js ''Spanish''"]
    getDefinition_outcomes [of parseEmptyObject "respond (textResponse (Some []))" "js ''run''" "js ''English''" "js ''Spanish''"]
    getDefinition_outcomes [of parseEmptyObject "respond (textResponse (Some (js ''not json'')))" "js ''run''" "js ''English''" "js ''Spanish''"]
    getDefinition_outcomes [of parseEmptyObject "respond (textResponse (Some (js ''{}'')))" "js ''run''" "js ''English''" "js ''Spanish''"]
  by (simp add: respond_def textResponse_def parseEmptyObject_def js_def)

text \<open>
  C4: when the image service call throws, \<open>generateImage\<close> logs the error and
  resolves to \<open>null\<close>; on no input does \<open>generateImage\<close> throw.
\<close>

theorem generateImage_recovers:
  "(\<forall>e. svc (imageRequest toLowerCase term targetLang) = Inl e \<longrightarrow>
       generateImage toLowerCase svc term targetLang
         = ([(js ''Image generation failed'', ServiceError e)], Inr None))
   \<and> (\<forall>error. snd (generateImage toLowerCase svc term targetLang) \<noteq> Inl error)"
proof (cases "svc (imageRequest toLowerCase term targetLang)")
  case (Inl e)
  then show ?thesis
    by (simp add: generateImage_def tryCatch_def await_Inl)
next
  case (Inr response)
  then show ?thesis
    by (simp add: generateImage_def tryCatch_def await_Inr)
qed

theorem generateImage_recovers_witness:
  "generateImage asciiToLowerCase (throwing (js ''quota exceeded'')) (js ''gato'') (js ''Spanish'')
     = ([(js ''Image generation failed'', ServiceError (js ''quota exceeded''))], Inr None)"
  using generateImage_recovers [of "throwing (js ''quota exceeded'')" asciiToLowerCase "js ''gato''" "js ''Spanish''"]
  by (simp add: throwing_def)

text \<open>
  C5: when the speech service call throws, \<open>generateSpeech\<close> logs the error and
  resolves to \<open>null\<close>; on no input does \<open>generateSpeech\<close> throw.
\<close>

theorem generateSpeech_recovers:
  "(\<forall>e. svc (speechRequest text) = Inl e \<longrightarrow>
       generateSpeech svc text = ([(js ''TTS failed'', ServiceError e)], Inr None))
   \<and> (\<forall>error. snd (generateSpeech svc text) \<noteq> Inl error)"
proof (cases "svc (speechRequest text)")
  case (Inl e)
  then show ?thesis
    by (simp add: generateSpeech_def tryCatch_def await_Inl)
next
  case (Inr response)
  then show ?thesis
    by (simp add: generateSpeech_def tryCatch_def await_Inr)
qed

theorem generateSpeech_recovers_witness:
  "generateSpeech (throwing (js ''network down'')) (js ''hola'')
     = ([(js ''TTS failed'', ServiceError (js ''network down''))], Inr None)"
  using generateSpeech_recovers [of "throwing (js ''network down'')" "js ''hola''"]
  by (simp add: throwing_def)

text \<open>
  C6: when the service call succeeds, \<open>generateStory\<close> returns the text of the
  response if it is non-empty and the literal \<open>Could not generate dialogue.\<close>
  otherwise; with the empty word list and a successful call it returns a string; an
  error of the service goes to the caller.
\<close>

theorem generateStory_fallback:
  "(\<forall>response t. svc (storyRequest words nativeLang targetLang) = Inr response
        \<and> response_text response = Some t \<and> t \<noteq> []
      \<longrightarrow> generateStory svc words nativeLang targetLang = Inr t)
   \<and> (\<forall>response. svc (storyRequest words nativeLang targetLang) = Inr response
        \<and> (response_text response = None \<or> response_text response = Some [])
      \<longrightarrow> generateStory svc words nativeLang targetLang = Inr (js ''Could not generate dialogue.''))
   \<and> (\<forall>response. svc (storyRequest [] nativeLang targetLang) = Inr response
      \<longrightarrow> (\<exists>story. generateStory svc [] nativeLang targetLang = Inr story))
   \<and> (\<forall>e. svc (storyRequest words nativeLang targetLang) = Inl e
      \<longrightarrow> generateStory svc words nativeLang targetLang = Inl (ServiceError e))"
  by (auto simp add: generateStory_def await_def orElse_def truthy_def)

theorem generateStory_fallback_witness:
  "generateStory (respond (textResponse (Some (js ''A: Hola. (Hello.)'')))) [] (js ''English'') (js ''Spanish'')
     = Inr (js ''A: Hola. (Hello.)'')
   \<and> generateStory (respond (textResponse None)) [] (js ''English'') (js ''Spanish'')
     = Inr (js ''Could not generate dialogue.'')
   \<and> generateStory (respond (textResponse (Some []))) [js ''gato'', js ''perro''] (js ''English'') (js ''Spanish'')
     = Inr (js ''Could not generate dialogue.'')
   \<and> generateStory (throwing (js ''quota exceeded'')) [] (js ''English'') (js ''Spanish'')
     = Inl (ServiceError (js ''quota exceeded''))"
  using generateStory_fallback [of "respond (textResponse (Some (js ''A: Hola. (Hello.)'')))" "[]" "js ''English''" "js ''Spanish''"]
    generateStory_fallback [of "respond (textResponse None)" "[]" "js ''English''" "js ''Spanish''"]
    generateStory_fallback [of "respond (textResponse (Some []))" "[js ''gato'', js ''perro'']" "js ''English''" "js ''Spanish''"]
    generateStory_fallback [of "throwing (js ''quota exceeded'')" "[]" "js ''English''" "js ''Spanish''"]
  by (simp add: respond_def throwing_def textResponse_def js_def)

text \<open>
  C7: for each of the three answer types, when the service call succeeds
  \<open>getQuickAiAnswer\<close> returns the text of the response if it is non-empty and the
  literal \<open>Could not generate an answer right now.\<close> otherwise; an error of the
  service goes to the caller.
\<close>

theorem getQuickAiAnswer_fallback:
  "(\<forall>response t. svc (quickAnswerRequest term type nativeLang targetLang) = Inr response
        \<and> response_text response = Some t \<and> t \<noteq> []
      \<longrightarrow> getQuickAiAnswer svc term type nativeLang targetLang = Inr t)
   \<and> (\<forall>response. svc (quickAnswerRequest term type nativeLang targetLang) = Inr response
        \<and> (response_text response = None \<or> response_text response = Some [])
      \<longrightarrow> getQuickAiAnswer svc term type nativeLang targetLang
            = Inr (js ''Could not generate an answer right now.''))
   \<and> (\<forall>e. svc (quickAnswerRequest term type nativeLang targetLang) = Inl e
      \<longrightarrow> getQuickAiAnswer svc term type nativeLang targetLang = Inl (ServiceError e))"
  by (auto simp add: getQuickAiAnswer_def await_def orElse_def truthy_def)

theorem getQuickAiAnswer_fallback_witness:
  "getQuickAiAnswer (respond (textResponse (Some (js ''Perro means dog!'')))) (js ''perro'') funfact (js ''English'') (js ''Spanish'')
     = Inr (js ''Perro means dog!'')
   \<and> getQuickAiAnswer (respond (textResponse None)) (js ''perro'') natural (js ''English'') (js ''Spanish'')
     = Inr (js ''Could not generate an answer right now.'')
   \<and> getQuickAiAnswer (respond (textResponse (Some []))) (js ''perro'') mistake (js ''English'') (js ''Spanish'')
     = Inr (js ''Could not generate an answer right now.'')
   \<and> getQuickAiAnswer (throwing (js ''quota exceeded'')) (js ''perro'') funfact (js ''English'') (js ''Spanish'')
     = Inl (ServiceError (js ''quota exceeded''))"
  using getQuickAiAnswer_fallback [of "respond (textResponse (Some (js ''Perro means dog!'')))" "js ''perro''" funfact "js ''English''" "js ''Spanish''"]
    getQuickAiAnswer_fallback [of "respond (textResponse None)" "js ''perro''" natural "js ''English''" "js ''Spanish''"]
    getQuickAiAnswer_fallback [of "respond (textResponse (Some []))" "js ''perro''" mistake "js ''English''" "js ''Spanish''"]
    getQuickAiAnswer_fallback [of "throwing (js ''quota exceeded'')" "js ''perro''" funfact "js ''English''" "js ''Spanish''"]
  by (simp add: respond_def throwing_def textResponse_def js_def)

text \<open>
  C8: for every input, the request that \<open>getDefinition\<close> sends and the request that
  \<open>getQuickAiAnswer\<close> sends (seen through a service that throws back what it
  receives) carry the temperature 0, and each operation depends on the service
  through its answer to that one request only; so a service that answers a request
  of temperature 0 in one way makes both operations give one result on one input.
\<close>

theorem zero_temperature_requests:
  "getDefinition JSON_parse Inl term nativeLang targetLang
     = Inl (ServiceError (definitionRequest term nativeLang targetLang))
   \<and> requestTemperature (definitionRequest term nativeLang targetLang) = Some 0
   \<and> (svc (definitionRequest term nativeLang targetLang) = svc' (definitionRequest term nativeLang targetLang)
        \<longrightarrow> getDefinition JSON_parse svc term nativeLang targetLang
            = getDefinition JSON_parse svc' term nativeLang targetLang)
   \<and> getQuickAiAnswer Inl term type nativeLang targetLang
     = Inl (ServiceError (quickAnswerRequest term type nativeLang targetLang))
   \<and> requestTemperature (quickAnswerRequest term type nativeLang targetLang) = Some 0
   \<and> (svc (quickAnswerRequest term type nativeLang targetLang)
          = svc' (quickAnswerRequest term type nativeLang targetLang)
        \<longrightarrow> getQuickAiAnswer svc term type nativeLang targetLang
            = getQuickAiAnswer svc' term type nativeLang targetLang)"
proof (intro conjI impI)
  show "getDefinition JSON_parse Inl term nativeLang targetLang
     = Inl (ServiceError (definitionRequest term nativeLang targetLang))"
    by (simp add: getDefinition_def await_Inl)
  show "requestTemperature (definitionRequest term nativeLang targetLang) = Some 0"
    by (simp add: requestTemperature_def definitionRequest_def noConfig_def)
  show "getQuickAiAnswer Inl term type nativeLang targetLang
     = Inl (ServiceError (quickAnswerRequest term type nativeLang targetLang))"
    by (simp add: getQuickAiAnswer_def await_Inl)
  show "requestTemperature (quickAnswerRequest term type nativeLang targetLang) = Some 0"
    by (simp add: requestTemperature_def quickAnswerRequest_def noConfig_def)
next
  assume "svc (definitionRequest term nativeLang targetLang) = svc' (definitionRequest term nativeLang targetLang)"
  then show "getDefinition JSON_parse svc term nativeLang targetLang
      = getDefinition JSON_parse svc' term nativeLang targetLang"
    by (simp add: getDefinition_def)
next
  assume "svc (quickAnswerRequest term type nativeLang targetLang)
      = svc' (quickAnswerRequest term type nativeLang targetLang)"
  then show "getQuickAiAnswer svc term type nativeLang targetLang
      = getQuickAiAnswer svc' term type nativeLang targetLang"
    by (simp add: getQuickAiAnswer_def)
qed

theorem zero_temperature_requests_witness:
  "getDefinition parseSampleDefinition Inl (js ''run'') (js ''English'') (js ''Spanish'')
     = Inl (ServiceError (definitionRequest (js ''run'') (js ''English'') (js ''Spanish'')))
   \<and> requestTemperature (definitionRequest (js ''run'') (js ''English'') (js ''Spanish'')) = Some 0
   \<and> getDefinition parseSampleDefinition (zeroTemperatureOnly (textResponse (Some sampleDefinitionText)))
         (js ''run'') (js ''English'') (js ''Spanish'')
     = Inr (DefinitionResponse (js ''to move fast'') [(js ''Corro.'', js ''I run.'')] (js ''very common''))
   \<and> getQuickAiAnswer Inl (js ''run'') natural (js ''English'') (js ''Spanish'')
     = Inl (ServiceError (quickAnswerRequest (js ''run'') natural (js ''English'') (js ''Spanish'')))
   \<and> requestTemperature (quickAnswerRequest (js ''run'') natural (js ''English'') (js ''Spanish'')) = Some 0
   \<and> getQuickAiAnswer (zeroTemperatureOnly (textResponse (Some (js ''Use it for jogging!''))))
         (js ''run'') natural (js ''English'') (js ''Spanish'')
     = Inr (js ''Use it for jogging!'')"
proof -
  note d = zero_temperature_requests [of parseSampleDefinition "js ''run''" "js ''English''" "js ''Spanish''"
      "respond (textResponse (Some sampleDefinitionText))"
      "zeroTemperatureOnly (textResponse (Some sampleDefinitionText))" natural]
  note q = zero_temperature_requests [of parseSampleDefinition "js ''run''" "js ''English''" "js ''Spanish''"
      "respond (textResponse (Some (js ''Use it for jogging!'')))"
      "zeroTemperatureOnly (textResponse (Some (js ''Use it for jogging!'')))" natural]
  have dv: "getDefinition parseSampleDefinition (respond (textResponse (Some sampleDefinitionText)))
      (js ''run'') (js ''English'') (js ''Spanish'')
     = Inr (DefinitionResponse (js ''to move fast'') [(js ''Corro.'', js ''I run.'')] (js ''very common''))"
    by (simp add: getDefinition_def await_def respond_def textResponse_def truthy_def
        parseSampleDefinition_def sampleDefinitionText_def js_def)
  have qv: "getQuickAiAnswer (respond (textResponse (Some (js ''Use it for jogging!''))))
      (js ''run'') natural (js ''English'') (js ''Spanish'') = Inr (js ''Use it for jogging!'')"
    by (simp add: getQuickAiAnswer_def await_def respond_def textResponse_def orElse_def
        truthy_def js_def)
  from d have d0: "requestTemperature (definitionRequest (js ''run'') (js ''English'') (js ''Spanish'')) = Some 0"
    by simp
  from q have q0: "requestTemperature (quickAnswerRequest (js ''run'') natural (js ''English'') (js ''Spanish'')) = Some 0"
    by simp
  from d d0 dv have "getDefinition parseSampleDefinition (zeroTemperatureOnly (textResponse (Some sampleDefinitionText)))
         (js ''run'') (js ''English'') (js ''Spanish'')
     = Inr (DefinitionResponse (js ''to move fast'') [(js ''Corro.'', js ''I run.'')] (js ''very common''))"
    by (simp add: respond_def zeroTemperatureOnly_def)
  moreover from q q0 qv have "getQuickAiAnswer (zeroTemperatureOnly (textResponse (Some (js ''Use it for jogging!''))))
         (js ''run'') natural (js ''English'') (js ''Spanish'')
     = Inr (js ''Use it for jogging!'')"
    by (simp add: respond_def zeroTemperatureOnly_def)
  ultimately show ?thesis
    using d q by simp
qed

text \<open>
  The request of \<open>generateStory\<close> carries no temperature.
\<close>

lemma generateStory_no_temperature:
  "requestTemperature (storyRequest words nativeLang targetLang) = None"
  by (simp add: requestTemperature_def storyRequest_def)

section \<open>Inline data of the response\<close>

lemma generateImage_loop_find:
  "generateImage_loop ps =
     (case find (\<lambda>p. inlineData p \<noteq> None) ps of
        None \<Rightarrow> None
      | Some part \<Rightarrow>
          Some (js ''data:image/png;base64,'' @ templateString (data (the (inlineData part)))))"
  by (induction ps) (auto split: option.splits)

lemma generateImage_loop_None:
  "generateImage_loop ps = None \<longleftrightarrow> (\<forall>part \<in> set ps. inlineData part = None)"
  by (induction ps) (auto split: option.splits)

lemma generateImage_success:
  "svc (imageRequest toLowerCase term targetLang) = Inr response \<Longrightarrow>
     generateImage toLowerCase svc term targetLang
       = ([], Inr (generateImage_loop (candidateParts response)))"
  by (simp add: generateImage_def tryCatch_def await_Inr)

text \<open>
  Where the first part that carries inline data has a payload, \<open>generateImage\<close>
  gives \<open>data:image/png;base64,\<close> followed by that payload; where no part of the first
  candidate carries inline data, also when there is no candidate, content or part
  list, it gives \<open>null\<close>.
\<close>

lemma generateImage_payload:
  "(\<forall>response part inline payload.
        svc (imageRequest toLowerCase term targetLang) = Inr response
        \<and> find (\<lambda>p. inlineData p \<noteq> None) (candidateParts response) = Some part
        \<and> inlineData part = Some inline \<and> data inline = Some payload
      \<longrightarrow> generateImage toLowerCase svc term targetLang
            = ([], Inr (Some (js ''data:image/png;base64,'' @ payload))))
   \<and> (\<forall>response. svc (imageRequest toLowerCase term targetLang) = Inr response
        \<and> (\<forall>part \<in> set (candidateParts response). inlineData part = None)
      \<longrightarrow> generateImage toLowerCase svc term targetLang = ([], Inr None))"
proof (intro conjI allI impI)
  fix response part inline payload
  assume "svc (imageRequest toLowerCase term targetLang) = Inr response
        \<and> find (\<lambda>p. inlineData p \<noteq> None) (candidateParts response) = Some part
        \<and> inlineData part = Some inline \<and> data inline = Some payload"
  then show "generateImage toLowerCase svc term targetLang
            = ([], Inr (Some (js ''data:image/png;base64,'' @ payload)))"
    by (simp add: generateImage_success generateImage_loop_find templateString_def)
next
  fix response
  assume "svc (imageRequest toLowerCase term targetLang) = Inr response
        \<and> (\<forall>part \<in> set (candidateParts response). inlineData part = None)"
  then show "generateImage toLowerCase svc term targetLang = ([], Inr None)"
    by (simp add: generateImage_success generateImage_loop_None)
qed

text \<open>
  C9: a value of \<open>generateImage\<close> other than \<open>null\<close> is to be
  \<open>data:image/png;base64,\<close> followed by the payload of the first part that carries
  inline data.  On a response whose first part has inline data without a payload
  field and whose second part has the payload \<open>QUJD\<close>, the template literal writes
  \<open>undefined\<close> after the prefix and the second part is not reached;
  \<open>generateSpeech\<close> gives \<open>null\<close> on the same response.
\<close>

theorem generateImage_missing_payload:
  "generateImage asciiToLowerCase
       (respond (partsResponse [[inlinePart None, inlinePart (Some (js ''QUJD''))]]))
       (js ''gato'') (js ''Spanish'')
     = ([], Inr (Some (js ''data:image/png;base64,undefined'')))
   \<and> generateSpeech (respond (partsResponse [[inlinePart None, inlinePart (Some (js ''QUJD''))]]))
       (js ''gato'')
     = ([], Inr None)"
  by (simp add: generateImage_def generateSpeech_def tryCatch_def await_def respond_def
      candidateParts_def firstPartData_def firstPart_def firstCandidateParts_def partsResponse_def
      inlinePart_def templateString_def orNull_def truthy_def js_def)

lemma generateSpeech_success:
  "svc (speechRequest text) = Inr response \<Longrightarrow>
     generateSpeech svc text = ([], Inr (orNull (firstPartData response)))"
  by (simp add: generateSpeech_def tryCatch_def await_Inr)

lemma firstPart_candidateParts:
  "firstCandidateParts response = Some (part # rest) \<Longrightarrow>
     firstPart response = Some part \<and> candidateParts response = part # rest"
  by (simp add: firstPart_def candidateParts_def)

text \<open>
  C10, as stated, fails where the first part carries inline data whose payload is the
  empty string: \<open>base64Audio || null\<close> is \<open>null\<close> there, not the payload.
\<close>

theorem generateSpeech_empty_payload_counterexample:
  "firstPart (partsResponse [[inlinePart (Some [])]]) = Some (inlinePart (Some []))
   \<and> inlineData (inlinePart (Some [])) = Some \<lparr>data = Some []\<rparr>
   \<and> generateSpeech (respond (partsResponse [[inlinePart (Some [])]])) (js ''hola'') = ([], Inr None)
   \<and> snd (generateSpeech (respond (partsResponse [[inlinePart (Some [])]])) (js ''hola''))
       \<noteq> Inr (Some [])"
  by (simp add: generateSpeech_def tryCatch_def await_def respond_def firstPartData_def firstPart_def
      firstCandidateParts_def partsResponse_def inlinePart_def orNull_def truthy_def)

text \<open>
  C10, amended: \<open>generateSpeech\<close> looks at the first part of the first candidate
  only.  If that part carries inline data with a non-empty payload, the payload is
  returned as it is; in every other case (no such part, no inline data, a payload
  that is absent or empty) the value is \<open>null\<close>, whatever later parts and later
  candidates carry.  On a response whose first part has no inline data and a later
  part of the first candidate has, \<open>generateSpeech\<close> gives \<open>null\<close> and
  \<open>generateImage\<close>, which scans every part, does not.
\<close>

theorem generateSpeech_first_part:
  "(\<forall>response part inline payload.
        svc (speechRequest text) = Inr response \<and> firstPart response = Some part
        \<and> inlineData part = Some inline \<and> data inline = Some payload \<and> payload \<noteq> []
      \<longrightarrow> generateSpeech svc text = ([], Inr (Some payload)))
   \<and> (\<forall>response.
        svc (speechRequest text) = Inr response
        \<and> \<not> (\<exists>part inline payload. firstPart response = Some part
              \<and> inlineData part = Some inline \<and> data inline = Some payload \<and> payload \<noteq> [])
      \<longrightarrow> generateSpeech svc text = ([], Inr None))
   \<and> (\<forall>response part rest later inline.
        svc (speechRequest text) = Inr response
        \<and> svc' (imageRequest toLowerCase term targetLang) = Inr response
        \<and> firstCandidateParts response = Some (part # rest)
        \<and> inlineData part = None \<and> later \<in> set rest \<and> inlineData later = Some inline
      \<longrightarrow> snd (generateSpeech svc text) = Inr None
          \<and> snd (generateImage toLowerCase svc' term targetLang) \<noteq> Inr None)"
proof (intro conjI allI impI)
  fix response part inline payload
  assume "svc (speechRequest text) = Inr response \<and> firstPart response = Some part
        \<and> inlineData part = Some inline \<and> data inline = Some payload \<and> payload \<noteq> []"
  then show "generateSpeech svc text = ([], Inr (Some payload))"
    by (simp add: generateSpeech_success firstPartData_def orNull_def truthy_def)
next
  fix response
  assume a: "svc (speechRequest text) = Inr response
        \<and> \<not> (\<exists>part inline payload. firstPart response = Some part
              \<and> inlineData part = Some inline \<and> data inline = Some payload \<and> payload \<noteq> [])"
  then have "orNull (firstPartData response) = None"
    by (auto simp add: firstPartData_def orNull_def truthy_def split: option.splits)
  with a show "generateSpeech svc text = ([], Inr None)"
    by (simp add: generateSpeech_success)
next
  fix response part rest later inline
  assume a: "svc (speechRequest text) = Inr response
        \<and> svc' (imageRequest toLowerCase term targetLang) = Inr response
        \<and> firstCandidateParts response = Some (part # rest)
        \<and> inlineData part = None \<and> later \<in> set rest \<and> inlineData later = Some inline"
  then have p: "firstPart response = Some part" "candidateParts response = part # rest"
    using firstPart_candidateParts [of response part rest] by simp_all
  from a p show "snd (generateSpeech svc text) = Inr None"
    by (simp add: generateSpeech_success firstPartData_def orNull_def truthy_def)
  from a have "generateImage_loop (part # rest) \<noteq> None"
    unfolding generateImage_loop_None by auto
  with a p show "snd (generateImage toLowerCase svc' term targetLang) \<noteq> Inr None"
    by (simp add: generateImage_success)
qed

theorem generateSpeech_first_part_witness:
  "generateSpeech (respond (partsResponse [[inlinePart (Some (js ''UklGRg==''))]])) (js ''hola'')
     = ([], Inr (Some (js ''UklGRg=='')))
   \<and> generateSpeech (respond (partsResponse [[textPart (js ''hola'')], [inlinePart (Some (js ''UklGRg==''))]]))
        (js ''hola'')
     = ([], Inr None)
   \<and> snd (generateSpeech (respond (partsResponse [[textPart (js ''hola''), inlinePart (Some (js ''UklGRg==''))]]))
        (js ''hola''))
     = Inr None
   \<and> snd (generateImage asciiToLowerCase
        (respond (partsResponse [[textPart (js ''hola''), inlinePart (Some (js ''UklGRg==''))]]))
        (js ''hola'') (js ''Spanish''))
     \<noteq> Inr None"
proof -
  have first: "respond (partsResponse [[inlinePart (Some (js ''UklGRg==''))]]) (speechRequest (js ''hola''))
        = Inr (partsResponse [[inlinePart (Some (js ''UklGRg==''))]])
      \<and> firstPart (partsResponse [[inlinePart (Some (js ''UklGRg==''))]])
        = Some (inlinePart (Some (js ''UklGRg=='')))
      \<and> inlineData (inlinePart (Some (js ''UklGRg==''))) = Some \<lparr>data = Some (js ''UklGRg=='')\<rparr>
      \<and> data \<lparr>data = Some (js ''UklGRg=='')\<rparr> = Some (js ''UklGRg=='')
      \<and> js ''UklGRg=='' \<noteq> []"
    by (simp add: respond_def firstPart_def firstCandidateParts_def partsResponse_def inlinePart_def js_def)
  have later_candidate:
    "respond (partsResponse [[textPart (js ''hola'')], [inlinePart (Some (js ''UklGRg==''))]])
         (speechRequest (js ''hola''))
        = Inr (partsResponse [[textPart (js ''hola'')], [inlinePart (Some (js ''UklGRg==''))]])
      \<and> \<not> (\<exists>part inline payload.
            firstPart (partsResponse [[textPart (js ''hola'')], [inlinePart (Some (js ''UklGRg==''))]]) = Some part
          \<and> inlineData part = Some inline \<and> data inline = Some payload \<and> payload \<noteq> [])"
    by (simp add: respond_def firstPart_def firstCandidateParts_def partsResponse_def textPart_def)
  have later_part:
    "respond (partsResponse [[textPart (js ''hola''), inlinePart (Some (js ''UklGRg==''))]])
         (speechRequest (js ''hola''))
        = Inr (partsResponse [[textPart (js ''hola''), inlinePart (Some (js ''UklGRg==''))]])
      \<and> respond (partsResponse [[textPart (js ''hola''), inlinePart (Some (js ''UklGRg==''))]])
         (imageRequest asciiToLowerCase (js ''hola'') (js ''Spanish''))
        = Inr (partsResponse [[textPart (js ''hola''), inlinePart (Some (js ''UklGRg==''))]])
      \<and> firstCandidateParts (partsResponse [[textPart (js ''hola''), inlinePart (Some (js ''UklGRg==''))]])
        = Some (textPart (js ''hola'') # [inlinePart (Some (js ''UklGRg==''))])
      \<and> inlineData (textPart (js ''hola'')) = None
      \<and> inlinePart (Some (js ''UklGRg=='')) \<in> set [inlinePart (Some (js ''UklGRg==''))]
      \<and> inlineData (inlinePart (Some (js ''UklGRg==''))) = Some \<lparr>data = Some (js ''UklGRg=='')\<rparr>"
    by (simp add: respond_def firstCandidateParts_def partsResponse_def textPart_def inlinePart_def)
  note t1 = generateSpeech_first_part [of "respond (partsResponse [[inlinePart (Some (js ''UklGRg==''))]])"
      "js ''hola''", THEN conjunct1, rule_format, OF first]
  note t2 = generateSpeech_first_part [of
      "respond (partsResponse [[textPart (js ''hola'')], [inlinePart (Some (js ''UklGRg==''))]])" "js ''hola''",
      THEN conjunct2, THEN conjunct1, rule_format, OF later_candidate]
  note t3 = generateSpeech_first_part [of
      "respond (partsResponse [[textPart (js ''hola''), inlinePart (Some (js ''UklGRg==''))]])" "js ''hola''"
      "respond (partsResponse [[textPart (js ''hola''), inlinePart (Some (js ''UklGRg==''))]])"
      asciiToLowerCase "js ''hola''" "js ''Spanish''",
      THEN conjunct2, THEN conjunct2, rule_format, OF later_part]
  from t1 t2 t3 show ?thesis
    by simp
qed

end
